theory Spec2Isabelle
  imports Main
begin

section \<open>The chat listener of keybase-bot (src/chat-client/index.ts)\<close>

text \<open>
  The theory embeds \<^verbatim>\<open>Chat._chatListen\<close>: the argument list of the spawned
  \<^verbatim>\<open>keybase chat api-listen\<close> process, the handlers attached to the child's lifecycle
  events and to its standard error, and the handler \<^verbatim>\<open>onLine\<close> attached to its
  standard output. Calls of the logger and of the two user callbacks are the observable
  effects; they are recorded, in order, as a list of events.
\<close>

subsection \<open>JavaScript values\<close>

text \<open>
  What \<^verbatim>\<open>JSON.parse\<close> can return. An object is the list of its own properties,
  read with \<open>map_of\<close>. The value \<^verbatim>\<open>undefined\<close>, which a property read can give but
  a parser cannot, is \<open>None\<close> of \<open>js_value\<close>. Numbers are never computed with here.
\<close>

datatype json =
    JNull
  | JBool bool
  | JNum int
  | JStr string
  | JArr "json list"
  | JObj "(string \<times> json) list"

type_synonym js_value = "json option"

text \<open>
  The exceptions of the handler: the ones of the runtime (\<^verbatim>\<open>SyntaxError\<close> of
  \<^verbatim>\<open>JSON.parse\<close>, \<^verbatim>\<open>TypeError\<close> of a property read on \<^verbatim>\<open>null\<close> or
  \<^verbatim>\<open>undefined\<close> and of a call of something that is no function), the handler's own
  \<^verbatim>\<open>new Error(messageObject.error)\<close>, which keeps the value it was built from, and
  whatever a callback or a collaborator raises.
\<close>

datatype js_error =
    SyntaxError string
  | TypeError
  | Error js_value
  | Raised string

text \<open>
  A callback has the type \<^verbatim>\<open>(x) => void | Promise<void>\<close>. Called, it returns, or
  throws, or returns a promise that is rejected later; the handler never looks at what a
  callback returns.
\<close>

datatype cb_result = Returns | Throws js_error | Rejects js_error

type_synonym OnMessage = "js_value \<Rightarrow> cb_result"
type_synonym OnError = "js_error \<Rightarrow> cb_result"

text \<open>
  What a handler can leave to the runtime: an exception that it did not catch, or the
  rejected promise of a callback, which nothing handles.
\<close>

datatype failure = Uncaught js_error | Unhandled_rejection js_error

datatype event =
    Log_info string
  | Log_error string
  | Message_cb js_value
  | Error_cb js_error

text \<open>\<^verbatim>\<open>ListenOptions\<close>: both fields are optional booleans.\<close>

record ListenOptions =
  hideExploding :: "bool option"
  showLocal :: "bool option"

text \<open>\<^verbatim>\<open>ChatChannel\<close> is an object type: a channel is the list of its properties.\<close>

type_synonym ChatChannel = "(string \<times> json) list"

text \<open>
  The fields of \<^verbatim>\<open>ClientBase\<close> that the listener reads or writes
  (lib/client-base/index.d.ts): \<^verbatim>\<open>void | string\<close> is \<open>string option\<close>, a child
  process is the path and the arguments it was spawned with.
\<close>

record ClientBase =
  username :: "string option"
  devicename :: "string option"
  homeDir :: "string option"
  spawnedProcesses :: "(string \<times> string list) list"

text \<open>
  The collaborators whose code is not part of the listener are parameters: the runtime's
  \<^verbatim>\<open>JSON.parse\<close>, \<^verbatim>\<open>JSON.stringify\<close> and \<^verbatim>\<open>String.prototype.toLowerCase\<close>
  (which folds the letters of all of Unicode), the two casing transforms of
  \<^verbatim>\<open>../utils\<close>, and \<^verbatim>\<open>_pathToKeybaseBinary()\<close>. A parser or a transform that
  throws returns \<open>Inl\<close>.
\<close>

record env =
  JSON_parse :: "string \<Rightarrow> js_error + json"
  formatAPIObjectOutput :: "json \<Rightarrow> js_error + json"
  formatAPIObjectInput :: "json \<Rightarrow> string \<Rightarrow> json"
  JSON_stringify :: "json \<Rightarrow> string"
  toLowerCase :: "string \<Rightarrow> string"
  pathToKeybaseBinary :: string

subsection \<open>The pieces of JavaScript the handler uses\<close>

text \<open>
  \<^verbatim>\<open>x.k\<close> for the property names that the handler reads (\<^verbatim>\<open>error\<close>, \<^verbatim>\<open>msg\<close>,
  \<^verbatim>\<open>sender\<close>, \<^verbatim>\<open>username\<close>, \<^verbatim>\<open>deviceName\<close>): a \<^verbatim>\<open>TypeError\<close> on
  \<^verbatim>\<open>null\<close> and \<^verbatim>\<open>undefined\<close>, the own property of an object, and
  \<^verbatim>\<open>undefined\<close> on a boolean, a number, a string or an array, which have no property of
  these names.
\<close>

fun get_prop :: "js_value \<Rightarrow> string \<Rightarrow> js_error + js_value" where
  "get_prop None k = Inl TypeError"
| "get_prop (Some JNull) k = Inl TypeError"
| "get_prop (Some (JObj kvs)) k = Inr (map_of kvs k)"
| "get_prop (Some v) k = Inr None"

text \<open>
  \<^verbatim>\<open>x.hasOwnProperty('error')\<close>. On \<^verbatim>\<open>null\<close> the read of the method throws. An
  object with an own property named \<^verbatim>\<open>hasOwnProperty\<close> hides the inherited method behind a
  parsed value, which is not callable. Strings and arrays own their indices and
  \<^verbatim>\<open>length\<close> only.
\<close>

fun hasOwnProperty_error :: "json \<Rightarrow> js_error + bool" where
  "hasOwnProperty_error JNull = Inl TypeError"
| "hasOwnProperty_error (JObj kvs) =
     (if map_of kvs ''hasOwnProperty'' \<noteq> None then Inl TypeError
      else Inr (map_of kvs ''error'' \<noteq> None))"
| "hasOwnProperty_error v = Inr False"

text \<open>\<^verbatim>\<open>options && options.showLocal\<close>, as a condition.\<close>

definition showLocal_set :: "ListenOptions option \<Rightarrow> bool" where
  "showLocal_set options =
     (case options of None \<Rightarrow> False | Some opts \<Rightarrow> showLocal opts = Some True)"

subsection \<open>The handler of a line of standard output\<close>

text \<open>
  The condition of the \<^verbatim>\<open>else if\<close> of \<^verbatim>\<open>onLine\<close>, evaluated left to right with
  the short cuts of \<^verbatim>\<open>||\<close> and \<^verbatim>\<open>&&\<close>: the message is read only when the option is
  off and both names of the session are truthy (the empty string is falsy, as
  \<^verbatim>\<open>undefined\<close> is), and the device name only when the user names are equal.
  \<^verbatim>\<open>!==\<close> between a parsed value and a string holds unless the value is that string.
\<close>

definition fire_condition ::
  "env \<Rightarrow> ClientBase \<Rightarrow> ListenOptions option \<Rightarrow> json \<Rightarrow> js_error + bool" where
  "fire_condition E this options messageObject =
     (if showLocal_set options then Inr True
      else
        (case username this of
           None \<Rightarrow> Inr False
         | Some name \<Rightarrow>
             if name = [] then Inr False
             else
               (case devicename this of
                  None \<Rightarrow> Inr False
                | Some device \<Rightarrow>
                    if device = [] then Inr False
                    else
                      (case get_prop (Some messageObject) ''msg'' of
                         Inl e \<Rightarrow> Inl e
                       | Inr msg \<Rightarrow>
                           (case get_prop msg ''sender'' of
                              Inl e \<Rightarrow> Inl e
                            | Inr sender \<Rightarrow>
                                (case get_prop sender ''username'' of
                                   Inl e \<Rightarrow> Inl e
                                 | Inr u \<Rightarrow>
                                     if u \<noteq> Some (JStr (toLowerCase E name)) then Inr True
                                     else
                                       (case get_prop sender ''deviceName'' of
                                          Inl e \<Rightarrow> Inl e
                                        | Inr d \<Rightarrow> Inr (d \<noteq> Some (JStr device)))))))))"

text \<open>\<^verbatim>\<open>formatAPIObjectOutput(JSON.parse(line))\<close>.\<close>

definition decode :: "env \<Rightarrow> string \<Rightarrow> js_error + json" where
  "decode E line =
     (case JSON_parse E line of Inl e \<Rightarrow> Inl e | Inr parsed \<Rightarrow> formatAPIObjectOutput E parsed)"

text \<open>
  How the body of the \<^verbatim>\<open>try\<close> ends: it completes, or an exception ends it, or it
  completes with the rejected promise of \<^verbatim>\<open>onMessage\<close> left behind (the handler drops
  what the callback returns, without \<^verbatim>\<open>await\<close> or \<^verbatim>\<open>.catch\<close>).
\<close>

datatype try_end = Completed | Thrown js_error | Left_rejection js_error

definition ended :: "cb_result \<Rightarrow> try_end" where
  "ended r = (case r of Returns \<Rightarrow> Completed | Throws e \<Rightarrow> Thrown e | Rejects e \<Rightarrow> Left_rejection e)"

text \<open>
  The body of the \<^verbatim>\<open>try\<close>: the events it caused and how it ended. The call of
  \<^verbatim>\<open>onMessage\<close> is inside the \<^verbatim>\<open>try\<close>, and is the last thing in it.
\<close>

definition try_body ::
  "env \<Rightarrow> ClientBase \<Rightarrow> OnMessage \<Rightarrow> ListenOptions option \<Rightarrow> string
     \<Rightarrow> event list \<times> try_end" where
  "try_body E this onMessage options line =
     (case decode E line of
        Inl e \<Rightarrow> ([], Thrown e)
      | Inr messageObject \<Rightarrow>
          (case hasOwnProperty_error messageObject of
             Inl e \<Rightarrow> ([], Thrown e)
           | Inr True \<Rightarrow>
               (case get_prop (Some messageObject) ''error'' of
                  Inl e \<Rightarrow> ([], Thrown e)
                | Inr v \<Rightarrow> ([], Thrown (Error v)))
           | Inr False \<Rightarrow>
               (case fire_condition E this options messageObject of
                  Inl e \<Rightarrow> ([], Thrown e)
                | Inr False \<Rightarrow> ([], Completed)
                | Inr True \<Rightarrow>
                    (case get_prop (Some messageObject) ''msg'' of
                       Inl e \<Rightarrow> ([], Thrown e)
                     | Inr msg \<Rightarrow> ([Message_cb msg], ended (onMessage msg))))))"

text \<open>
  What the call of \<^verbatim>\<open>onError\<close> in the \<^verbatim>\<open>catch\<close> leaves to the runtime: what it
  throws, which nothing catches, or its rejected promise.
\<close>

definition left_by :: "cb_result \<Rightarrow> failure option" where
  "left_by r =
     (case r of
        Returns \<Rightarrow> None
      | Throws e \<Rightarrow> Some (Uncaught e)
      | Rejects e \<Rightarrow> Some (Unhandled_rejection e))"

text \<open>
  \<^verbatim>\<open>onLine\<close>: the log, the \<^verbatim>\<open>try\<close>, and the \<^verbatim>\<open>catch\<close>, which hands the
  exception to \<^verbatim>\<open>onError\<close> when there is one. The result is the events of the line and
  what the handler leaves to the runtime, \<open>None\<close> when it returns with nothing pending.
\<close>

definition onLine ::
  "env \<Rightarrow> ClientBase \<Rightarrow> OnMessage \<Rightarrow> OnError option \<Rightarrow> ListenOptions option \<Rightarrow> string
     \<Rightarrow> event list \<times> failure option" where
  "onLine E this onMessage onError options line =
     (let log = [Log_info (''stdout from listener: '' @ line)] in
      case try_body E this onMessage options line of
        (evs, Completed) \<Rightarrow> (log @ evs, None)
      | (evs, Left_rejection e) \<Rightarrow> (log @ evs, Some (Unhandled_rejection e))
      | (evs, Thrown error) \<Rightarrow>
          (case onError of
             None \<Rightarrow> (log @ evs, None)
           | Some f \<Rightarrow> (log @ evs @ [Error_cb error], left_by (f error))))"

subsection \<open>The line reader\<close>

text \<open>
  \<^verbatim>\<open>lineReaderStdout.on('line', onLine)\<close>: the reader calls the handler once for each
  line, in the order of the lines. The delivery is followed as far as the listener
  determines it, which is up to the first line whose handler leaves something to the
  runtime. An uncaught exception ends the process by default; what an unhandled rejection
  does depends on the version of the runtime (Node 15 and later end the process, earlier
  versions warn and go on). The result keeps what was left, and says nothing of the lines
  after it.
\<close>

fun emit_lines ::
  "(string \<Rightarrow> event list \<times> failure option) \<Rightarrow> string list \<Rightarrow> event list \<times> failure option" where
  "emit_lines h [] = ([], None)"
| "emit_lines h (l # ls) =
     (case h l of
        (evs, Some e) \<Rightarrow> (evs, Some e)
      | (evs, None) \<Rightarrow> (case emit_lines h ls of (evs', r) \<Rightarrow> (evs @ evs', r)))"

subsection \<open>Standard error and the lifecycle of the child\<close>

text \<open>The handler of \<^verbatim>\<open>lineReaderStderr\<close>.\<close>

definition onStderrLine :: "string \<Rightarrow> event list" where
  "onStderrLine line = [Log_error (''stderr from listener: '' @ line)]"

text \<open>The reader of standard error calls its handler once for each line.\<close>

definition emit_stderr_lines :: "(string \<Rightarrow> event list) \<Rightarrow> string list \<Rightarrow> event list" where
  "emit_stderr_lines h lines = concat (map h lines)"

text \<open>
  The events \<^verbatim>\<open>error\<close> (with \<^verbatim>\<open>err.message\<close>), \<^verbatim>\<open>exit\<close>, \<^verbatim>\<open>close\<close>
  and \<^verbatim>\<open>disconnect\<close> of the child, and their four handlers, which get the client and
  return it with what they logged.
\<close>

datatype child_event = Child_error string | Child_exit | Child_close | Child_disconnect

fun child_on :: "child_event \<Rightarrow> ClientBase \<Rightarrow> event list \<times> ClientBase" where
  "child_on (Child_error message) this = ([Log_error (''got listen error '' @ message)], this)"
| "child_on Child_exit this = ([Log_info ''got listen exit''], this)"
| "child_on Child_close this = ([Log_info ''got listen close''], this)"
| "child_on Child_disconnect this = ([Log_info ''got listen disconnect''], this)"

text \<open>The child emits a sequence of lifecycle events; each goes to its handler.\<close>

fun emit_child_events ::
  "(child_event \<Rightarrow> ClientBase \<Rightarrow> event list \<times> ClientBase) \<Rightarrow> child_event list \<Rightarrow> ClientBase
     \<Rightarrow> event list \<times> ClientBase" where
  "emit_child_events h [] this = ([], this)"
| "emit_child_events h (c # cs) this =
     (case h c this of
        (evs, this') \<Rightarrow>
          (case emit_child_events h cs this' of (evs', this'') \<Rightarrow> (evs @ evs', this'')))"

subsection \<open>The subscription\<close>

text \<open>\<^verbatim>\<open>args.join(' ')\<close>.\<close>

fun join :: "string \<Rightarrow> string list \<Rightarrow> string" where
  "join sep [] = []"
| "join sep [x] = x"
| "join sep (x # y # ys) = x @ sep @ join sep (y # ys)"

text \<open>
  The argument list that \<^verbatim>\<open>_chatListen\<close> builds, statement by statement. A
  channel object is truthy whatever its properties are.
\<close>

definition listen_args ::
  "env \<Rightarrow> ClientBase \<Rightarrow> ChatChannel option \<Rightarrow> ListenOptions option \<Rightarrow> string list" where
  "listen_args E this channel options =
     (let args0 = [''chat'', ''api-listen''];
          args1 = (case homeDir this of
                     None \<Rightarrow> args0
                   | Some dir \<Rightarrow> if dir = [] then args0 else [''--home'', dir] @ args0);
          args2 = (case options of
                     None \<Rightarrow> args1 @ [''--hide-exploding'']
                   | Some opts \<Rightarrow>
                       if hideExploding opts \<noteq> Some False then args1 @ [''--hide-exploding'']
                       else args1);
          args3 = (case options of
                     None \<Rightarrow> args2
                   | Some opts \<Rightarrow>
                       if showLocal opts = Some True then args2 @ [''--local''] else args2)
      in case channel of
           None \<Rightarrow> args3
         | Some c \<Rightarrow>
             args3 @ [''--filter-channel'',
                      JSON_stringify E (formatAPIObjectInput E (JObj c) ''chat'')])"

text \<open>
  What a subscription leaves behind: the three kinds of handlers. The handler of a line of
  standard output reads \<^verbatim>\<open>this.username\<close> and \<^verbatim>\<open>this.devicename\<close> when
  the line arrives, so it takes the client of that moment.
\<close>

record listener =
  stdout_line :: "ClientBase \<Rightarrow> string \<Rightarrow> event list \<times> failure option"
  stderr_line :: "string \<Rightarrow> event list"
  lifecycle :: "child_event \<Rightarrow> ClientBase \<Rightarrow> event list \<times> ClientBase"

text \<open>
  \<^verbatim>\<open>_chatListen\<close>: spawn the child, append it to \<^verbatim>\<open>_spawnedProcesses\<close>, log
  the command, attach the handlers.
\<close>

definition chatListen ::
  "env \<Rightarrow> OnMessage \<Rightarrow> OnError option \<Rightarrow> ChatChannel option \<Rightarrow> ListenOptions option
     \<Rightarrow> ClientBase \<Rightarrow> (event list \<times> listener) \<times> ClientBase" where
  "chatListen E onMessage onError channel options this =
     (let args = listen_args E this channel options;
          child = (pathToKeybaseBinary E, args);
          this' = this\<lparr>spawnedProcesses := spawnedProcesses this @ [child]\<rparr>;
          cmdSample = pathToKeybaseBinary E @ '' '' @ join '' '' args;
          shown = (case channel of None \<Rightarrow> JStr ''ALL'' | Some c \<Rightarrow> JObj c);
          log = [Log_info (''beginning listen on channel='' @ JSON_stringify E shown
                           @ '' using '' @ cmdSample)]
      in ((log,
           \<lparr>stdout_line = (\<lambda>client line. onLine E client onMessage onError options line),
            stderr_line = onStderrLine,
            lifecycle = child_on\<rparr>),
          this'))"

text \<open>The handlers that a call of \<^verbatim>\<open>_chatListen\<close> attaches.\<close>

definition attached ::
  "env \<Rightarrow> OnMessage \<Rightarrow> OnError option \<Rightarrow> ChatChannel option \<Rightarrow> ListenOptions option
     \<Rightarrow> ClientBase \<Rightarrow> listener" where
  "attached E onMessage onError channel options this =
     snd (fst (chatListen E onMessage onError channel options this))"

subsection \<open>Reading a list of events\<close>

text \<open>The payloads \<^verbatim>\<open>onMessage\<close> was called with, the errors \<^verbatim>\<open>onError\<close> was
  called with, and whether an event is a call of the logger.\<close>

fun messages_of :: "event list \<Rightarrow> js_value list" where
  "messages_of [] = []"
| "messages_of (Message_cb m # evs) = m # messages_of evs"
| "messages_of (ev # evs) = messages_of evs"

fun errors_of :: "event list \<Rightarrow> js_error list" where
  "errors_of [] = []"
| "errors_of (Error_cb e # evs) = e # errors_of evs"
| "errors_of (ev # evs) = errors_of evs"

fun is_log :: "event \<Rightarrow> bool" where
  "is_log (Log_info s) = True"
| "is_log (Log_error s) = True"
| "is_log ev = False"

subsection \<open>The notions of the specification\<close>

text \<open>A decoded object that carries an error field.\<close>

fun carries_error_field :: "json \<Rightarrow> bool" where
  "carries_error_field (JObj kvs) = (map_of kvs ''error'' \<noteq> None)"
| "carries_error_field v = False"

text \<open>A line that is malformed (its decoding throws) or that carries an error field.\<close>

definition failed_line :: "env \<Rightarrow> string \<Rightarrow> bool" where
  "failed_line E line =
     (case decode E line of Inl e \<Rightarrow> True | Inr messageObject \<Rightarrow> carries_error_field messageObject)"

text \<open>
  The error of such a line: what the decoding threw, or the \<^verbatim>\<open>TypeError\<close> of the
  call of a hidden \<^verbatim>\<open>hasOwnProperty\<close>, or the \<^verbatim>\<open>Error\<close> made from the field.
\<close>

definition line_failure :: "env \<Rightarrow> string \<Rightarrow> js_error" where
  "line_failure E line =
     (case decode E line of
        Inl e \<Rightarrow> e
      | Inr messageObject \<Rightarrow>
          (case hasOwnProperty_error messageObject of
             Inl e \<Rightarrow> e
           | Inr b \<Rightarrow>
               (case get_prop (Some messageObject) ''error'' of Inl e \<Rightarrow> e | Inr v \<Rightarrow> Error v)))"

text \<open>
  A success notification: the line decodes, to something on which the test for an error
  field runs and finds none.
\<close>

definition success_notification :: "env \<Rightarrow> string \<Rightarrow> json \<Rightarrow> bool" where
  "success_notification E line messageObject =
     (decode E line = Inr messageObject \<and> hasOwnProperty_error messageObject = Inr False)"

text \<open>
  The sender identity of a notification, when it has one: the values of
  \<^verbatim>\<open>msg.sender.username\<close> and \<^verbatim>\<open>msg.sender.deviceName\<close>, each possibly
  \<^verbatim>\<open>undefined\<close>, when \<^verbatim>\<open>msg.sender\<close> can be read from.
\<close>

definition sender_of :: "json \<Rightarrow> (js_value \<times> js_value) option" where
  "sender_of messageObject =
     (case get_prop (Some messageObject) ''msg'' of
        Inl e \<Rightarrow> None
      | Inr msg \<Rightarrow>
          (case get_prop msg ''sender'' of
             Inl e \<Rightarrow> None
           | Inr sender \<Rightarrow>
               (case (get_prop sender ''username'', get_prop sender ''deviceName'') of
                  (Inr u, Inr d) \<Rightarrow> Some (u, d)
                | _ \<Rightarrow> None)))"

definition decoded_sender :: "env \<Rightarrow> string \<Rightarrow> (js_value \<times> js_value) option" where
  "decoded_sender E line =
     (case decode E line of Inl e \<Rightarrow> None | Inr messageObject \<Rightarrow> sender_of messageObject)"

text \<open>
  The specification's self-origin rule on names: the sender differs from the session by
  user name, case-insensitively, or by device name.
\<close>

definition differs_case_insensitive ::
  "env \<Rightarrow> string \<Rightarrow> string \<Rightarrow> string \<Rightarrow> string \<Rightarrow> bool" where
  "differs_case_insensitive E sender_name sender_device name device =
     (toLowerCase E sender_name \<noteq> toLowerCase E name \<or> sender_device \<noteq> device)"

subsection \<open>A concrete environment\<close>

text \<open>
  An environment to run the listener in, on names and lines made of ASCII characters: a
  parser that knows a handful of lines and rejects every other, the renaming of
  \<^verbatim>\<open>snake_case\<close> keys to \<^verbatim>\<open>camelCase\<close>, a serialiser for channels that have a name
  only, and the lower-casing of the letters A to Z, which is what \<^verbatim>\<open>toLowerCase\<close> does
  to a string of ASCII characters.
\<close>

definition ascii_lower_char :: "char \<Rightarrow> char" where
  "ascii_lower_char c =
     (let n = (of_char c :: nat) in if 65 \<le> n \<and> n \<le> 90 then char_of (n + 32) else c)"

definition ascii_toLowerCase :: "string \<Rightarrow> string" where
  "ascii_toLowerCase s = map ascii_lower_char s"

definition line_from :: "string \<Rightarrow> string \<Rightarrow> string" where
  "line_from name device =
     ''{\"msg\":{\"sender\":{\"username\":\"'' @ name @ ''\",\"device_name\":\"'' @ device
       @ ''\"},\"body\":\"hi\"}}''"

definition message_from :: "string \<Rightarrow> string \<Rightarrow> json" where
  "message_from name device =
     JObj [(''msg'', JObj [(''sender'', JObj [(''username'', JStr name), (''device_name'', JStr device)]),
                           (''body'', JStr ''hi'')])]"

definition known_lines :: "(string \<times> json) list" where
  "known_lines =
     [(line_from ''bob'' ''x'', message_from ''bob'' ''x''),
      (line_from ''bot'' ''d1'', message_from ''bot'' ''d1''),
      (line_from ''bot'' ''d2'', message_from ''bot'' ''d2''),
      (line_from ''other'' ''d1'', message_from ''other'' ''d1''),
      (line_from ''Bot'' ''d1'', message_from ''Bot'' ''d1''),
      (''{\"error\":\"boom\"}'', JObj [(''error'', JStr ''boom'')])]"

definition demo_parse :: "string \<Rightarrow> js_error + json" where
  "demo_parse line =
     (case map_of known_lines line of None \<Rightarrow> Inl (SyntaxError line) | Some v \<Rightarrow> Inr v)"

definition upper_char :: "char \<Rightarrow> char" where
  "upper_char c =
     (let n = (of_char c :: nat) in if 97 \<le> n \<and> n \<le> 122 then char_of (n - 32) else c)"

fun camelCase :: "string \<Rightarrow> string" where
  "camelCase [] = []"
| "camelCase [c] = [c]"
| "camelCase (c # d # s) =
     (if c = CHR ''_'' then upper_char d # camelCase s else c # camelCase (d # s))"

fun camel_keys :: "json \<Rightarrow> json" where
  "camel_keys (JArr xs) = JArr (map camel_keys xs)"
| "camel_keys (JObj kvs) = JObj (map (\<lambda>(k, v). (camelCase k, camel_keys v)) kvs)"
| "camel_keys v = v"

fun demo_stringify :: "json \<Rightarrow> string" where
  "demo_stringify (JStr s) = ''\"'' @ s @ ''\"''"
| "demo_stringify (JObj [(k, JStr s)]) = ''{\"'' @ k @ ''\":\"'' @ s @ ''\"}''"
| "demo_stringify v = ''null''"

definition demo_env :: env where
  "demo_env =
     \<lparr>JSON_parse = demo_parse,
      formatAPIObjectOutput = (\<lambda>v. Inr (camel_keys v)),
      formatAPIObjectInput = (\<lambda>v context. v),
      JSON_stringify = demo_stringify,
      toLowerCase = ascii_toLowerCase,
      pathToKeybaseBinary = ''keybase''\<rparr>"

text \<open>
  The decoded form of a line of \<open>line_from\<close>, and the message in it that \<^verbatim>\<open>onMessage\<close>
  receives.
\<close>

definition payload_from :: "string \<Rightarrow> string \<Rightarrow> json" where
  "payload_from name device =
     JObj [(''sender'', JObj [(''username'', JStr name), (''deviceName'', JStr device)]),
           (''body'', JStr ''hi'')]"

definition notification_from :: "string \<Rightarrow> string \<Rightarrow> json" where
  "notification_from name device = JObj [(''msg'', payload_from name device)]"

text \<open>Options with \<^verbatim>\<open>showLocal\<close> on.\<close>

definition local_on :: "ListenOptions option" where
  "local_on = Some \<lparr>hideExploding = None, showLocal = Some True\<rparr>"

definition session :: "string \<Rightarrow> string \<Rightarrow> ClientBase" where
  "session name device =
     \<lparr>username = Some name, devicename = Some device, homeDir = None, spawnedProcesses = []\<rparr>"

text \<open>Callbacks: one that returns, one that throws, one whose promise is rejected.\<close>

definition returning :: "'a \<Rightarrow> cb_result" where
  "returning x = Returns"

definition throwing :: "'a \<Rightarrow> cb_result" where
  "throwing x = Throws (Raised ''callback failed'')"


section \<open>Properties\<close>

subsection \<open>Auxiliary facts\<close>

lemma get_msg_total:
  assumes "hasOwnProperty_error messageObject = Inr False"
  shows "\<exists>m. get_prop (Some messageObject) ''msg'' = Inr m"
  using assms by (cases messageObject) simp_all

lemma try_body_failed:
  assumes "failed_line E line"
  shows "try_body E this onMessage options line = ([], Thrown (line_failure E line))"
proof (cases "decode E line")
  case (Inl e)
  then show ?thesis by (simp add: try_body_def line_failure_def)
next
  case (Inr messageObject)
  with assms have "carries_error_field messageObject" by (simp add: failed_line_def)
  then obtain kvs where obj: "messageObject = JObj kvs" and "map_of kvs ''error'' \<noteq> None"
    by (cases messageObject) simp_all
  with Inr show ?thesis
    by (simp add: try_body_def line_failure_def)
qed

lemma fire_condition_sender:
  assumes "\<not> showLocal_set options"
    and "username this = Some name" and "name \<noteq> []"
    and "devicename this = Some device" and "device \<noteq> []"
    and "sender_of messageObject = Some (u, d)"
  shows "fire_condition E this options messageObject
           = Inr (u \<noteq> Some (JStr (toLowerCase E name)) \<or> d \<noteq> Some (JStr device))"
  using assms
  by (auto simp: fire_condition_def sender_of_def split: sum.splits)

lemma try_body_success:
  assumes "success_notification E line messageObject"
    and "fire_condition E this options messageObject = Inr b"
    and "get_prop (Some messageObject) ''msg'' = Inr m"
  shows "try_body E this onMessage options line
           = (if b then ([Message_cb m], ended (onMessage m)) else ([], Completed))"
  using assms
  by (auto simp: try_body_def success_notification_def)


lemma emit_lines_Cons:
  assumes "h l = (evs, None)"
  shows "emit_lines h (l # ls) = (evs @ fst (emit_lines h ls), snd (emit_lines h ls))"
  using assms by (simp split: prod.splits)

lemma onLine_failed:
  assumes "failed_line E line"
  shows "onLine E this onMessage onError options line =
           (case onError of
              None \<Rightarrow> ([Log_info (''stdout from listener: '' @ line)], None)
            | Some f \<Rightarrow>
                ([Log_info (''stdout from listener: '' @ line), Error_cb (line_failure E line)],
                 left_by (f (line_failure E line))))"
  by (simp add: onLine_def try_body_failed [OF assms] split: option.splits)

lemma onLine_success:
  assumes "success_notification E line messageObject"
    and "fire_condition E this options messageObject = Inr b"
    and "get_prop (Some messageObject) ''msg'' = Inr m"
  shows "onLine E this onMessage onError options line =
           (if \<not> b then ([Log_info (''stdout from listener: '' @ line)], None)
            else
              (case onMessage m of
                 Returns \<Rightarrow> ([Log_info (''stdout from listener: '' @ line), Message_cb m], None)
               | Rejects e \<Rightarrow>
                   ([Log_info (''stdout from listener: '' @ line), Message_cb m],
                    Some (Unhandled_rejection e))
               | Throws e \<Rightarrow>
                   (case onError of
                      None \<Rightarrow> ([Log_info (''stdout from listener: '' @ line), Message_cb m], None)
                    | Some f \<Rightarrow>
                        ([Log_info (''stdout from listener: '' @ line), Message_cb m, Error_cb e],
                         left_by (f e)))))"
  by (simp add: onLine_def try_body_success [OF assms] ended_def
      split: option.splits cb_result.splits)

lemma fire_condition_showLocal:
  "showLocal_set options \<Longrightarrow> fire_condition E this options messageObject = Inr True"
  by (simp add: fire_condition_def)

lemma fire_condition_unset:
  assumes "\<not> showLocal_set options"
    and "username this = None \<or> username this = Some [] \<or> devicename this = None
           \<or> devicename this = Some []"
  shows "fire_condition E this options messageObject = Inr False"
  using assms by (auto simp: fire_condition_def split: option.splits)

lemma attached_handlers:
  "stdout_line (attached E onMessage onError channel options this)
     = (\<lambda>client line. onLine E client onMessage onError options line)"
  "stderr_line (attached E onMessage onError channel options this) = onStderrLine"
  "lifecycle (attached E onMessage onError channel options this) = child_on"
  by (simp_all add: attached_def chatListen_def Let_def)

lemma child_on_frame: "snd (child_on c this) = this" "list_all is_log (fst (child_on c this))"
  by (cases c; simp)+

lemma emit_child_events_frame:
  "snd (emit_child_events child_on cs this) = this
   \<and> list_all is_log (fst (emit_child_events child_on cs this))"
proof (induction cs)
  case Nil
  then show ?case by simp
next
  case (Cons c cs)
  obtain evs where c: "child_on c this = (evs, this)" and evs: "list_all is_log evs"
    using child_on_frame [of c this] by (cases "child_on c this") auto
  obtain evs' where cs: "emit_child_events child_on cs this = (evs', this)"
    and evs': "list_all is_log evs'"
    using Cons by (cases "emit_child_events child_on cs this") auto
  from c cs evs evs' show ?case by simp
qed

lemma logs_are_no_calls:
  "list_all is_log evs \<Longrightarrow> messages_of evs = [] \<and> errors_of evs = []"
  by (induction evs rule: messages_of.induct) simp_all

text \<open>
  For a sender whose user name is in lower case already, as the service sends it, the
  comparison of the code is the comparison that ignores case.
\<close>

lemma lower_case_sender_agrees:
  assumes "sender_name = toLowerCase E sender_name"
  shows "(sender_name \<noteq> toLowerCase E name \<or> sender_device \<noteq> device)
           \<longleftrightarrow> differs_case_insensitive E sender_name sender_device name device"
  using assms by (auto simp: differs_case_insensitive_def)

subsection \<open>The claims\<close>

text \<open>
  C1, as the code has it: with \<^verbatim>\<open>showLocal\<close> on, every success notification is
  delivered, once, with its \<^verbatim>\<open>msg\<close>. With \<^verbatim>\<open>showLocal\<close> off and both names of the
  session set (and not empty), \<^verbatim>\<open>onMessage\<close> is called if and only if the sender's user
  name, taken as it was received, is not the lower-cased user name of the session, or the
  sender's device name is not the device name of the session. Only the session's side of
  the user names is lower-cased.
\<close>

theorem self_origin_filter_exact:
  assumes "success_notification E line messageObject"
  shows "(showLocal_set options \<longrightarrow>
            (\<exists>m. get_prop (Some messageObject) ''msg'' = Inr m
                 \<and> messages_of (fst (onLine E this onMessage onError options line)) = [m]))
         \<and> (\<not> showLocal_set options \<longrightarrow>
              username this = Some name \<longrightarrow> name \<noteq> [] \<longrightarrow>
              devicename this = Some device \<longrightarrow> device \<noteq> [] \<longrightarrow>
              sender_of messageObject = Some (u, d) \<longrightarrow>
                (messages_of (fst (onLine E this onMessage onError options line)) \<noteq> []
                   \<longleftrightarrow> u \<noteq> Some (JStr (toLowerCase E name)) \<or> d \<noteq> Some (JStr device)))"
proof -
  obtain m where m: "get_prop (Some messageObject) ''msg'' = Inr m"
    using assms get_msg_total by (auto simp: success_notification_def)
  have shape: "messages_of (fst (onLine E this onMessage onError options line))
                 = (if b then [m] else [])"
    if "fire_condition E this options messageObject = Inr b" for b
    using onLine_success [OF assms that m, of onMessage onError]
    by (simp split: option.splits cb_result.splits)
  have local: "messages_of (fst (onLine E this onMessage onError options line)) = [m]"
    if "showLocal_set options"
    using shape [OF fire_condition_showLocal [OF that]] by simp
  have filtered: "messages_of (fst (onLine E this onMessage onError options line)) \<noteq> []
                    \<longleftrightarrow> u \<noteq> Some (JStr (toLowerCase E name)) \<or> d \<noteq> Some (JStr device)"
    if "\<not> showLocal_set options" "username this = Some name" "name \<noteq> []"
      "devicename this = Some device" "device \<noteq> []" "sender_of messageObject = Some (u, d)"
    using shape [OF fire_condition_sender [OF that]] by simp
  from m local filtered show ?thesis by blast
qed

text \<open>
  The claim as the specification words it, with a comparison of user names that ignores
  case on both sides, fails: the session \<^verbatim>\<open>bot\<close> on device \<^verbatim>\<open>d1\<close> is handed a message
  of sender \<^verbatim>\<open>Bot\<close> on device \<^verbatim>\<open>d1\<close>.
\<close>

theorem claimed_filter_counterexample:
  "decoded_sender demo_env (line_from ''Bot'' ''d1'') = Some (Some (JStr ''Bot''), Some (JStr ''d1''))
   \<and> \<not> (messages_of (fst (onLine demo_env (session ''bot'' ''d1'') returning (Some returning) None
                               (line_from ''Bot'' ''d1''))) \<noteq> []
          \<longleftrightarrow> differs_case_insensitive demo_env ''Bot'' ''d1'' ''bot'' ''d1'')"
  by code_simp

text \<open>
  The rule at work, for the session \<^verbatim>\<open>bot\<close> on \<^verbatim>\<open>d1\<close>: its own user on another device is
  delivered, its own message is not, and with \<^verbatim>\<open>showLocal\<close> on its own message is
  delivered too, with the \<^verbatim>\<open>msg\<close> of the line as payload.
\<close>

theorem self_origin_filter_exact_witness:
  "success_notification demo_env (line_from ''bot'' ''d2'') (notification_from ''bot'' ''d2'')
   \<and> success_notification demo_env (line_from ''bot'' ''d1'') (notification_from ''bot'' ''d1'')
   \<and> showLocal_set local_on \<and> \<not> showLocal_set None
   \<and> username (session ''bot'' ''d1'') = Some ''bot'' \<and> ''bot'' \<noteq> []
   \<and> devicename (session ''bot'' ''d1'') = Some ''d1'' \<and> ''d1'' \<noteq> []
   \<and> sender_of (notification_from ''bot'' ''d2'') = Some (Some (JStr ''bot''), Some (JStr ''d2''))
   \<and> sender_of (notification_from ''bot'' ''d1'') = Some (Some (JStr ''bot''), Some (JStr ''d1''))
   \<and> messages_of (fst (onLine demo_env (session ''bot'' ''d1'') returning (Some returning) None
                          (line_from ''bot'' ''d2''))) \<noteq> []
   \<and> messages_of (fst (onLine demo_env (session ''bot'' ''d1'') returning (Some returning) None
                          (line_from ''bot'' ''d1''))) = []
   \<and> messages_of (fst (onLine demo_env (session ''bot'' ''d1'') returning (Some returning) local_on
                          (line_from ''bot'' ''d1''))) = [Some (payload_from ''bot'' ''d1'')]"
proof -
  have h2: "success_notification demo_env (line_from ''bot'' ''d2'') (notification_from ''bot'' ''d2'')"
    and h1: "success_notification demo_env (line_from ''bot'' ''d1'') (notification_from ''bot'' ''d1'')"
    by code_simp+
  have on: "showLocal_set local_on" and off: "\<not> showLocal_set None"
    by (simp_all add: showLocal_set_def local_on_def)
  have who: "username (session ''bot'' ''d1'') = Some ''bot''"
      "devicename (session ''bot'' ''d1'') = Some ''d1''"
    by (simp_all add: session_def)
  have sender2: "sender_of (notification_from ''bot'' ''d2'')
                   = Some (Some (JStr ''bot''), Some (JStr ''d2''))"
    and sender1: "sender_of (notification_from ''bot'' ''d1'')
                   = Some (Some (JStr ''bot''), Some (JStr ''d1''))"
    by code_simp+
  have lower: "toLowerCase demo_env ''bot'' = ''bot''"
    by code_simp
  have payload: "get_prop (Some (notification_from ''bot'' ''d1'')) ''msg''
                   = Inr (Some (payload_from ''bot'' ''d1''))"
    by (simp add: notification_from_def)
  have other_device:
    "messages_of (fst (onLine demo_env (session ''bot'' ''d1'') returning (Some returning) None
                         (line_from ''bot'' ''d2''))) \<noteq> []"
    using self_origin_filter_exact [OF h2, of None "session ''bot'' ''d1''" returning
        "Some returning" "''bot''" "''d1''" "Some (JStr ''bot'')" "Some (JStr ''d2'')"]
      off who sender2 lower by simp
  have same_device:
    "messages_of (fst (onLine demo_env (session ''bot'' ''d1'') returning (Some returning) None
                         (line_from ''bot'' ''d1''))) = []"
    using self_origin_filter_exact [OF h1, of None "session ''bot'' ''d1''" returning
        "Some returning" "''bot''" "''d1''" "Some (JStr ''bot'')" "Some (JStr ''d1'')"]
      off who sender1 lower by simp
  have local_echo:
    "messages_of (fst (onLine demo_env (session ''bot'' ''d1'') returning (Some returning) local_on
                         (line_from ''bot'' ''d1''))) = [Some (payload_from ''bot'' ''d1'')]"
    using self_origin_filter_exact [OF h1, of local_on "session ''bot'' ''d1''" returning
        "Some returning"] on payload by simp
  from h1 h2 on off who sender1 sender2 other_device same_device local_echo
  show ?thesis by simp
qed







text \<open>
  C4, as the code has it: a line that decodes to a success notification of a sender who
  differs from the session identity as the handler tests it (the user name is not the
  lower-cased user name of the session, or the device name is not the device name of the
  session) makes the listener with default options call \<^verbatim>\<open>onMessage\<close> exactly once, with
  the \<^verbatim>\<open>msg\<close> of the notification. \<^verbatim>\<open>onError\<close> is called for that line only when
  \<^verbatim>\<open>onMessage\<close> itself throws and an \<^verbatim>\<open>onError\<close> is supplied, and then once, with what
  was thrown.
\<close>

theorem delivered_once_without_error:
  assumes "success_notification E line messageObject"
    and "sender_of messageObject = Some (u, d)"
    and "username this = Some name" and "name \<noteq> []"
    and "devicename this = Some device" and "device \<noteq> []"
    and "u \<noteq> Some (JStr (toLowerCase E name)) \<or> d \<noteq> Some (JStr device)"
    and "get_prop (Some messageObject) ''msg'' = Inr m"
  shows "messages_of (fst (onLine E this onMessage onError None line)) = [m]
         \<and> errors_of (fst (onLine E this onMessage onError None line))
             = (case onMessage m of
                  Returns \<Rightarrow> []
                | Rejects e \<Rightarrow> []
                | Throws e \<Rightarrow> (case onError of None \<Rightarrow> [] | Some f \<Rightarrow> [e]))"
proof -
  have off: "\<not> showLocal_set None"
    by (simp add: showLocal_set_def)
  have "fire_condition E this None messageObject = Inr True"
    using fire_condition_sender [OF off assms(3-6) assms(2)] assms(7) by simp
  from onLine_success [OF assms(1) this assms(8), of onMessage onError]
  show ?thesis by (simp split: cb_result.splits option.splits)
qed

text \<open>
  The claim that \<^verbatim>\<open>onError\<close> is never called for such a line fails: on the line of the
  end-to-end scenario, an \<^verbatim>\<open>onMessage\<close> that throws has its error handed to \<^verbatim>\<open>onError\<close>.
\<close>

theorem delivered_with_error_counterexample:
  "success_notification demo_env (line_from ''bob'' ''x'') (notification_from ''bob'' ''x'')
   \<and> sender_of (notification_from ''bob'' ''x'') = Some (Some (JStr ''bob''), Some (JStr ''x''))
   \<and> differs_case_insensitive demo_env ''bob'' ''x'' ''alice'' ''y''
   \<and> messages_of (fst (onLine demo_env (session ''alice'' ''y'') throwing (Some returning) None
                          (line_from ''bob'' ''x''))) = [Some (payload_from ''bob'' ''x'')]
   \<and> errors_of (fst (onLine demo_env (session ''alice'' ''y'') throwing (Some returning) None
                        (line_from ''bob'' ''x''))) = [Raised ''callback failed'']"
  by code_simp

text \<open>
  The end-to-end scenario: sender \<^verbatim>\<open>bob\<close> on \<^verbatim>\<open>x\<close>, session \<^verbatim>\<open>alice\<close> on \<^verbatim>\<open>y\<close>,
  a callback that returns, and a message whose body is \<^verbatim>\<open>hi\<close>.
\<close>

theorem delivered_once_without_error_witness:
  "success_notification demo_env (line_from ''bob'' ''x'') (notification_from ''bob'' ''x'')
   \<and> sender_of (notification_from ''bob'' ''x'') = Some (Some (JStr ''bob''), Some (JStr ''x''))
   \<and> username (session ''alice'' ''y'') = Some ''alice'' \<and> ''alice'' \<noteq> []
   \<and> devicename (session ''alice'' ''y'') = Some ''y'' \<and> ''y'' \<noteq> []
   \<and> Some (JStr ''bob'') \<noteq> Some (JStr (toLowerCase demo_env ''alice''))
   \<and> get_prop (Some (notification_from ''bob'' ''x'')) ''msg'' = Inr (Some (payload_from ''bob'' ''x''))
   \<and> get_prop (Some (payload_from ''bob'' ''x'')) ''body'' = Inr (Some (JStr ''hi''))
   \<and> messages_of (fst (onLine demo_env (session ''alice'' ''y'') returning (Some returning) None
                          (line_from ''bob'' ''x''))) = [Some (payload_from ''bob'' ''x'')]
   \<and> errors_of (fst (onLine demo_env (session ''alice'' ''y'') returning (Some returning) None
                        (line_from ''bob'' ''x''))) = []"
proof -
  have h1: "success_notification demo_env (line_from ''bob'' ''x'') (notification_from ''bob'' ''x'')"
    by code_simp
  have h2: "sender_of (notification_from ''bob'' ''x'') = Some (Some (JStr ''bob''), Some (JStr ''x''))"
    by code_simp
  have h3: "username (session ''alice'' ''y'') = Some ''alice''"
    and h5: "devicename (session ''alice'' ''y'') = Some ''y''"
    by (simp_all add: session_def)
  have h4: "''alice'' \<noteq> []" and h6: "''y'' \<noteq> []"
    by simp_all
  have lower: "toLowerCase demo_env ''alice'' = ''alice''"
    by code_simp
  then have other: "Some (JStr ''bob'') \<noteq> Some (JStr (toLowerCase demo_env ''alice''))"
    by simp
  then have h7: "Some (JStr ''bob'') \<noteq> Some (JStr (toLowerCase demo_env ''alice''))
                 \<or> Some (JStr ''x'') \<noteq> Some (JStr ''y'')"
    by (rule disjI1)
  have h8: "get_prop (Some (notification_from ''bob'' ''x'')) ''msg''
              = Inr (Some (payload_from ''bob'' ''x''))"
    by (simp add: notification_from_def)
  have body: "get_prop (Some (payload_from ''bob'' ''x'')) ''body'' = Inr (Some (JStr ''hi''))"
    by (simp add: payload_from_def)
  from delivered_once_without_error [where onMessage = returning and onError = "Some returning",
         OF h1 h2 h3 h4 h5 h6 h7 h8]
  have "messages_of (fst (onLine demo_env (session ''alice'' ''y'') returning (Some returning) None
                            (line_from ''bob'' ''x''))) = [Some (payload_from ''bob'' ''x'')]
        \<and> errors_of (fst (onLine demo_env (session ''alice'' ''y'') returning (Some returning) None
                            (line_from ''bob'' ''x''))) = []"
    by (simp add: returning_def)
  with h1 h2 h3 h5 other h8 body show ?thesis by simp
qed

text \<open>
  C5: the argument list of the listen process is \<^verbatim>\<open>--home\<close> and the directory when a
  home directory is configured (and not empty), then \<^verbatim>\<open>chat api-listen\<close>, then
  \<^verbatim>\<open>--hide-exploding\<close> unless \<^verbatim>\<open>hideExploding\<close> is false, then \<^verbatim>\<open>--local\<close> when
  \<^verbatim>\<open>showLocal\<close> is true, then \<^verbatim>\<open>--filter-channel\<close> and the serialised channel when a
  channel is given; the child registered is spawned with this list.
\<close>

theorem listen_process_arguments:
  "listen_args E this channel options
     = (case homeDir this of
          None \<Rightarrow> []
        | Some dir \<Rightarrow> if dir = [] then [] else [''--home'', dir])
       @ [''chat'', ''api-listen'']
       @ (if (case options of None \<Rightarrow> True | Some opts \<Rightarrow> hideExploding opts \<noteq> Some False)
          then [''--hide-exploding''] else [])
       @ (if (case options of None \<Rightarrow> False | Some opts \<Rightarrow> showLocal opts = Some True)
          then [''--local''] else [])
       @ (case channel of
            None \<Rightarrow> []
          | Some c \<Rightarrow>
              [''--filter-channel'', JSON_stringify E (formatAPIObjectInput E (JObj c) ''chat'')])
   \<and> spawnedProcesses (snd (chatListen E onMessage onError channel options this))
       = spawnedProcesses this @ [(pathToKeybaseBinary E, listen_args E this channel options)]"
  by (simp add: listen_args_def chatListen_def Let_def split: option.splits)

text \<open>
  All the options at once, none of them, and the defaults.
\<close>

theorem listen_process_arguments_witness:
  "listen_args demo_env ((session ''bot'' ''d1'')\<lparr>homeDir := Some ''/tmp/kb''\<rparr>)
       (Some [(''name'', JStr ''kbot,alice'')]) (Some \<lparr>hideExploding = None, showLocal = Some True\<rparr>)
     = [''--home'', ''/tmp/kb'', ''chat'', ''api-listen'', ''--hide-exploding'', ''--local'',
        ''--filter-channel'', ''{\"name\":\"kbot,alice\"}'']
   \<and> listen_args demo_env (session ''bot'' ''d1'') None
       (Some \<lparr>hideExploding = Some False, showLocal = Some False\<rparr>)
     = [''chat'', ''api-listen'']
   \<and> listen_args demo_env (session ''bot'' ''d1'') None None
     = [''chat'', ''api-listen'', ''--hide-exploding'']"
  using listen_process_arguments [of demo_env "(session ''bot'' ''d1'')\<lparr>homeDir := Some ''/tmp/kb''\<rparr>"
      "Some [(''name'', JStr ''kbot,alice'')]" "Some \<lparr>hideExploding = None, showLocal = Some True\<rparr>"]
    listen_process_arguments [of demo_env "session ''bot'' ''d1''" None
      "Some \<lparr>hideExploding = Some False, showLocal = Some False\<rparr>"]
    listen_process_arguments [of demo_env "session ''bot'' ''d1''" None None]
  by (simp add: session_def demo_env_def)

text \<open>
  C6: the handler of a line does not depend on the channel. Two subscriptions that differ
  in the channel (and in the client they were made on) handle every line alike, as
  \<^verbatim>\<open>onLine\<close> does without a channel; the channel only adds \<^verbatim>\<open>--filter-channel\<close> and its
  serialisation at the end of the argument list.
\<close>

theorem channel_not_in_line_handler:
  "stdout_line (attached E onMessage onError channel options this) client line
     = stdout_line (attached E onMessage onError channel' options this') client line
   \<and> stdout_line (attached E onMessage onError channel options this) client line
     = onLine E client onMessage onError options line
   \<and> listen_args E this (Some c) options
     = listen_args E this None options
       @ [''--filter-channel'', JSON_stringify E (formatAPIObjectInput E (JObj c) ''chat'')]"
  by (simp add: attached_handlers listen_args_def Let_def)

text \<open>
  A subscription to a channel and one to all channels, on the line of the end-to-end
  scenario.
\<close>

theorem channel_not_in_line_handler_witness:
  "stdout_line (attached demo_env returning (Some returning) (Some [(''name'', JStr ''team'')]) None
                 (session ''alice'' ''y'')) (session ''alice'' ''y'') (line_from ''bob'' ''x'')
     = stdout_line (attached demo_env returning (Some returning) None None (session ''alice'' ''y''))
         (session ''alice'' ''y'') (line_from ''bob'' ''x'')
   \<and> listen_args demo_env (session ''alice'' ''y'') (Some [(''name'', JStr ''team'')]) None
     = [''chat'', ''api-listen'', ''--hide-exploding'', ''--filter-channel'', ''{\"name\":\"team\"}'']"
proof -
  have "listen_args demo_env (session ''alice'' ''y'') None None
          = [''chat'', ''api-listen'', ''--hide-exploding'']"
    by (simp add: listen_args_def session_def)
  with channel_not_in_line_handler [of demo_env returning "Some returning"
      "Some [(''name'', JStr ''team'')]" None "session ''alice'' ''y''" "session ''alice'' ''y''"
      "line_from ''bob'' ''x''" None "session ''alice'' ''y''" "[(''name'', JStr ''team'')]"]
  show ?thesis by (simp add: demo_env_def)
qed

text \<open>
  C7: a line of standard error causes one call of the logger and nothing else, whatever
  its text: over any sequence of such lines, neither \<^verbatim>\<open>onMessage\<close> nor \<^verbatim>\<open>onError\<close> is
  called.
\<close>

theorem stderr_lines_only_logged:
  "stderr_line (attached E onMessage onError channel options this) line
     = [Log_error (''stderr from listener: '' @ line)]
   \<and> messages_of (emit_stderr_lines (stderr_line (attached E onMessage onError channel options this))
                    lines) = []
   \<and> errors_of (emit_stderr_lines (stderr_line (attached E onMessage onError channel options this))
                  lines) = []"
proof -
  have "list_all is_log (emit_stderr_lines onStderrLine lines)"
    by (induction lines) (simp_all add: emit_stderr_lines_def onStderrLine_def)
  then show ?thesis
    using logs_are_no_calls by (simp add: attached_handlers onStderrLine_def)
qed

text \<open>
  A line of standard error that would be an error notification on standard output, and
  one that would be a message.
\<close>

theorem stderr_lines_only_logged_witness:
  "failed_line demo_env ''{\"error\":\"boom\"}''
   \<and> emit_stderr_lines (stderr_line (attached demo_env returning (Some returning) None None
                                      (session ''alice'' ''y'')))
        [''{\"error\":\"boom\"}'', line_from ''bob'' ''x'']
     = [Log_error ''stderr from listener: {\"error\":\"boom\"}'',
        Log_error (''stderr from listener: '' @ line_from ''bob'' ''x'')]"
proof -
  have "failed_line demo_env ''{\"error\":\"boom\"}''"
    by code_simp
  with stderr_lines_only_logged [of demo_env returning "Some returning" None None
      "session ''alice'' ''y''" "''{\"error\":\"boom\"}''"]
    stderr_lines_only_logged [of demo_env returning "Some returning" None None
      "session ''alice'' ''y''" "line_from ''bob'' ''x''"]
  show ?thesis by (simp add: emit_stderr_lines_def)
qed

text \<open>
  C8: the handlers of the lifecycle events of the child only log. After any sequence of
  such events the client (its names, its home directory, its list of spawned processes)
  is what it was, every event caused is a call of the logger, and the handler of a line of
  standard output behaves as before.
\<close>

theorem lifecycle_handlers_only_log:
  "snd (emit_child_events (lifecycle (attached E onMessage onError channel options this)) cs client)
     = client
   \<and> list_all is_log
       (fst (emit_child_events (lifecycle (attached E onMessage onError channel options this)) cs
              client))
   \<and> stdout_line (attached E onMessage onError channel options this)
       (snd (emit_child_events (lifecycle (attached E onMessage onError channel options this)) cs
              client)) line
     = stdout_line (attached E onMessage onError channel options this) client line"
  using emit_child_events_frame [of cs client] by (simp add: attached_handlers)

text \<open>
  The four events, after a subscription that registered its child.
\<close>

theorem lifecycle_handlers_only_log_witness:
  "emit_child_events (lifecycle (attached demo_env returning (Some returning) None None
                                  (session ''alice'' ''y'')))
     [Child_error ''spawn ENOENT'', Child_exit, Child_close, Child_disconnect]
     (snd (chatListen demo_env returning (Some returning) None None (session ''alice'' ''y'')))
   = ([Log_error ''got listen error spawn ENOENT'', Log_info ''got listen exit'',
       Log_info ''got listen close'', Log_info ''got listen disconnect''],
      (session ''alice'' ''y'')
        \<lparr>spawnedProcesses := [(''keybase'', [''chat'', ''api-listen'', ''--hide-exploding''])]\<rparr>)"
proof -
  have reg: "snd (chatListen demo_env returning (Some returning) None None (session ''alice'' ''y''))
          = (session ''alice'' ''y'')
              \<lparr>spawnedProcesses := [(''keybase'', [''chat'', ''api-listen'', ''--hide-exploding''])]\<rparr>"
    by (simp add: chatListen_def listen_args_def Let_def session_def demo_env_def)
  have logs: "fst (emit_child_events (lifecycle (attached demo_env returning (Some returning) None None
                                  (session ''alice'' ''y'')))
     [Child_error ''spawn ENOENT'', Child_exit, Child_close, Child_disconnect]
     (snd (chatListen demo_env returning (Some returning) None None (session ''alice'' ''y''))))
    = [Log_error ''got listen error spawn ENOENT'', Log_info ''got listen exit'',
       Log_info ''got listen close'', Log_info ''got listen disconnect'']"
    by (simp add: attached_handlers)
  from lifecycle_handlers_only_log [of demo_env returning "Some returning" None None
      "session ''alice'' ''y''" "[Child_error ''spawn ENOENT'', Child_exit, Child_close, Child_disconnect]"
      "snd (chatListen demo_env returning (Some returning) None None (session ''alice'' ''y''))"]
    logs reg
  show ?thesis by (simp add: prod_eq_iff)
qed

text \<open>
  C9: when the user name or the device name of the session is unset (or empty) and
  \<^verbatim>\<open>showLocal\<close> is not true, a success notification causes the log of the line and nothing
  else: neither \<^verbatim>\<open>onMessage\<close> nor \<^verbatim>\<open>onError\<close> is called, and the handler returns.
\<close>

theorem unset_identity_suppresses:
  assumes "success_notification E line messageObject"
    and "\<not> showLocal_set options"
    and "username this = None \<or> username this = Some [] \<or> devicename this = None
           \<or> devicename this = Some []"
  shows "onLine E this onMessage onError options line
           = ([Log_info (''stdout from listener: '' @ line)], None)
         \<and> messages_of (fst (onLine E this onMessage onError options line)) = []
         \<and> errors_of (fst (onLine E this onMessage onError options line)) = []"
proof -
  obtain m where m: "get_prop (Some messageObject) ''msg'' = Inr m"
    using assms(1) get_msg_total by (auto simp: success_notification_def)
  have "fire_condition E this options messageObject = Inr False"
    using assms(2,3) by (rule fire_condition_unset)
  from onLine_success [OF assms(1) this m]
  show ?thesis by simp
qed

text \<open>
  The line of the end-to-end scenario, for a session without a device name.
\<close>

theorem unset_identity_suppresses_witness:
  "success_notification demo_env (line_from ''bob'' ''x'') (notification_from ''bob'' ''x'')
   \<and> \<not> showLocal_set None
   \<and> username ((session ''alice'' ''y'')\<lparr>devicename := None\<rparr>) = Some ''alice''
   \<and> devicename ((session ''alice'' ''y'')\<lparr>devicename := None\<rparr>) = None
   \<and> onLine demo_env ((session ''alice'' ''y'')\<lparr>devicename := None\<rparr>) returning (Some returning) None
        (line_from ''bob'' ''x'')
       = ([Log_info (''stdout from listener: '' @ line_from ''bob'' ''x'')], None)"
proof -
  have h1: "success_notification demo_env (line_from ''bob'' ''x'') (notification_from ''bob'' ''x'')"
    by code_simp
  have h2: "\<not> showLocal_set None"
    by (simp add: showLocal_set_def)
  have h3: "username ((session ''alice'' ''y'')\<lparr>devicename := None\<rparr>) = None
            \<or> username ((session ''alice'' ''y'')\<lparr>devicename := None\<rparr>) = Some []
            \<or> devicename ((session ''alice'' ''y'')\<lparr>devicename := None\<rparr>) = None
            \<or> devicename ((session ''alice'' ''y'')\<lparr>devicename := None\<rparr>) = Some []"
    by (simp add: session_def)
  from unset_identity_suppresses [OF h1 h2 h3, of returning "Some returning"] h1 h2
  show ?thesis by (simp add: session_def)
qed

text \<open>
  C10: without an \<^verbatim>\<open>onError\<close>, a line that fails to decode or carries an error field is
  logged and dropped: the handler returns normally, no callback is called, and the lines
  that follow are processed as they would be on their own.
\<close>

theorem no_onError_discards_failed_line:
  assumes "failed_line E line"
  shows "onLine E this onMessage None options line
           = ([Log_info (''stdout from listener: '' @ line)], None)
         \<and> messages_of (fst (onLine E this onMessage None options line)) = []
         \<and> errors_of (fst (onLine E this onMessage None options line)) = []
         \<and> emit_lines (onLine E this onMessage None options) (line # rest)
             = (Log_info (''stdout from listener: '' @ line)
                  # fst (emit_lines (onLine E this onMessage None options) rest),
                snd (emit_lines (onLine E this onMessage None options) rest))"
proof -
  have one: "onLine E this onMessage None options line
               = ([Log_info (''stdout from listener: '' @ line)], None)"
    using onLine_failed [OF assms, of this onMessage None options] by simp
  from emit_lines_Cons [of "onLine E this onMessage None options" line, OF one] one
  show ?thesis by simp
qed

text \<open>
  A malformed line followed by a message.
\<close>

theorem no_onError_discards_failed_line_witness:
  "failed_line demo_env ''not json''
   \<and> onLine demo_env (session ''alice'' ''y'') returning None None ''not json''
       = ([Log_info ''stdout from listener: not json''], None)
   \<and> emit_lines (onLine demo_env (session ''alice'' ''y'') returning None None)
         [''not json'', line_from ''bob'' ''x'']
       = ([Log_info ''stdout from listener: not json'',
           Log_info (''stdout from listener: '' @ line_from ''bob'' ''x''),
           Message_cb (Some (payload_from ''bob'' ''x''))], None)"
proof -
  have h: "failed_line demo_env ''not json''"
    by code_simp
  have next_line: "emit_lines (onLine demo_env (session ''alice'' ''y'') returning None None)
                     [line_from ''bob'' ''x'']
                   = ([Log_info (''stdout from listener: '' @ line_from ''bob'' ''x''),
                       Message_cb (Some (payload_from ''bob'' ''x''))], None)"
    by code_simp
  from no_onError_discards_failed_line [OF h, of "session ''alice'' ''y''" returning None
         "[line_from ''bob'' ''x'']"] h next_line
  show ?thesis by simp
qed

end
